theory Spec2Isabelle
  imports Main "HOL-Library.AList" "HOL-Library.Word"
begin

section \<open>Values, attributes and errors\<close>

text \<open>
  A Go \<open>interface{}\<close> value as the validators see it. A decoded JSON document holds
  \<open>nil\<close>, \<open>bool\<close>, \<open>string\<close>, \<open>json.Number\<close> (the numeric token, kept as text because
  the decoder runs with \<open>UseNumber\<close>), \<open>[]interface{}\<close> and \<open>map[string]interface{}\<close>;
  callers of the library may also pass a native \<open>float64\<close> (its 64 bits) or a native signed
  integer (\<open>int\<close>, \<open>int8\<close>, ..., \<open>int64\<close>, the width forgotten).

  A Go map is an association list: its keys are distinct, and the order of the list is the
  order in which one \<open>range\<close> over the map visits the entries. Go leaves that order open, so a
  statement about every list is a statement about every iteration order.
\<close>

datatype val =
    VNil
  | VBool bool
  | VString string
  | VNumber string
  | VFloat64 "64 word"
  | VInt int
  | VList "val list"
  | VMap "(string \<times> val) list"

type_synonym gomap = "(string \<times> val) list"

datatype attributeType =
    attributeDataTypeBinary
  | attributeDataTypeBoolean
  | attributeDataTypeComplex
  | attributeDataTypeDateTime
  | attributeDataTypeDecimal
  | attributeDataTypeInteger
  | attributeDataTypeReference
  | attributeDataTypeString
  | attributeDataTypeOther

datatype attributeMutability =
    attributeMutabilityImmutable
  | attributeMutabilityReadOnly
  | attributeMutabilityReadWrite
  | attributeMutabilityWriteOnly

datatype attributeReturned =
    attributeReturnedAlways
  | attributeReturnedDefault
  | attributeReturnedNever
  | attributeReturnedRequest

datatype attributeUniqueness =
    attributeUniquenessGlobal
  | attributeUniquenessNone
  | attributeUniquenessServer

text \<open>
  \<open>CoreAttribute\<close>, field by field in the order of the Go struct. The struct is recursive
  through \<open>subAttributes\<close>, so it is a datatype with selectors (field \<open>typ\<close> is \<open>typ'\<close>:
  \<open>typ\<close> is a keyword).
\<close>

datatype CoreAttribute = CoreAttribute
  (canonicalValues: "string list")
  (caseExact: bool)
  (description: "string option")
  (multiValued: bool)
  (mutability: attributeMutability)
  (name: string)
  (referenceTypes: "string list")
  (required: bool)
  (returned: attributeReturned)
  (subAttributes: "CoreAttribute list")
  (typ': attributeType)
  (uniqueness: attributeUniqueness)

text \<open>
  The error templates of package \<open>errors\<close> (\<open>errors.ScimErrorInvalidValue\<close> and the others)
  are named by \<open>scimError\<close>. Every error the code builds copies \<open>ScimType\<close> and \<open>Status\<close> from
  one template and sets \<open>Detail\<close> to the template's \<open>Detail\<close> followed by a text of its own:
  \<open>ScimError t d\<close> is that error, \<open>t\<close> the template and \<open>d\<close> the text appended.
\<close>

datatype scimError =
    ScimErrorInvalidSyntax
  | ScimErrorInvalidValue
  | ScimErrorInvalidPath
  | ScimErrorInvalidFilter
  | ScimErrorMutability
  | ScimErrorDuplicateAttributeFound

datatype ScimError = ScimError (ScimType: scimError) (Detail: string)

text \<open>
  What a call can end with besides a result: a \<open>*errors.ScimError\<close>, or a run-time panic
  from dereferencing a nil pointer.
\<close>

datatype failure = Failed ScimError | NilPointerDereference

text \<open>
  The functions of other packages that singular validation calls: \<open>datetime.Parse\<close>
  (True when it returns no error), \<open>json.Number.Float64\<close> and \<open>json.Number.Int64\<close>
  (\<open>None\<close> when they return an error).
\<close>

record externals =
  datetime_Parse :: "string \<Rightarrow> bool"
  Number_Float64 :: "string \<Rightarrow> 64 word option"
  Number_Int64 :: "string \<Rightarrow> int option"

section \<open>Strings\<close>

text \<open>
  Strings are byte lists. \<open>strings.ToLower\<close> and \<open>strings.EqualFold\<close> on ASCII text: a
  letter \<open>A\<close>..\<open>Z\<close> goes to \<open>a\<close>..\<open>z\<close>, every other byte stays, and two strings are equal
  under folding when their lower-cased forms are equal.
\<close>

definition toLowerByte :: "char \<Rightarrow> char" where
  "toLowerByte c =
     (case map_of (zip ''ABCDEFGHIJKLMNOPQRSTUVWXYZ'' ''abcdefghijklmnopqrstuvwxyz'') c of
        None \<Rightarrow> c
      | Some d \<Rightarrow> d)"

definition ToLower :: "string \<Rightarrow> string" where
  "ToLower s = map toLowerByte s"

definition EqualFold :: "string \<Rightarrow> string \<Rightarrow> bool" where
  "EqualFold s t = (ToLower s = ToLower t)"

text \<open>
  The regular expression of the binary case,
  \<^verbatim>\<open>^([A-Za-z0-9+/]{4})*([A-Za-z0-9+/]{3}=|[A-Za-z0-9+/]{2}==)?$\<close>,
  as a matcher over the whole string.
\<close>

definition base64Byte :: "char \<Rightarrow> bool" where
  "base64Byte c =
     (c \<in> set ''ABCDEFGHIJKLMNOPQRSTUVWXYZabcdefghijklmnopqrstuvwxyz0123456789+/'')"

fun matchBase64 :: "string \<Rightarrow> bool" where
  "matchBase64 [] = True"
| "matchBase64 [a, b, c, d] =
     (base64Byte a \<and> base64Byte b \<and>
      ((base64Byte c \<and> (base64Byte d \<or> d = CHR ''=''))
       \<or> (c = CHR ''='' \<and> d = CHR ''='')))"
| "matchBase64 (a # b # c # d # rest) =
     (base64Byte a \<and> base64Byte b \<and> base64Byte c \<and> base64Byte d \<and> matchBase64 rest)"
| "matchBase64 _ = False"

section \<open>Loops and maps\<close>

text \<open>
  A \<open>for ... range\<close> loop whose body may return an error: the body takes the element and
  the variables the loop updates, and the first error ends the loop.
\<close>

fun forEach :: "('x \<Rightarrow> 's \<Rightarrow> 'e + 's) \<Rightarrow> 'x list \<Rightarrow> 's \<Rightarrow> 'e + 's" where
  "forEach body [] s = Inr s"
| "forEach body (x # xs) s =
     (case body x s of Inl e \<Rightarrow> Inl e | Inr s' \<Rightarrow> forEach body xs s')"

lemma forEach_cong [fundef_cong]:
  "xs = ys \<Longrightarrow> s = t \<Longrightarrow> (\<And>x u. x \<in> set ys \<Longrightarrow> f x u = g x u)
   \<Longrightarrow> forEach f xs s = forEach g ys t"
proof (induction ys arbitrary: xs s t)
  case Nil
  then show ?case by simp
next
  case (Cons y ys)
  then show ?case by (auto split: sum.splits)
qed

lemma forEach_cong_eta [fundef_cong]:
  "xs = ys \<Longrightarrow> (\<And>x u. x \<in> set ys \<Longrightarrow> f x u = g x u)
   \<Longrightarrow> forEach f xs = forEach g ys"
  by (rule ext) (rule forEach_cong, simp_all)

text \<open>\<open>m[k] = v\<close> and \<open>m[k]\<close> on a Go map; a missing key reads as \<open>nil\<close>.\<close>

definition mapAssign :: "gomap \<Rightarrow> string \<Rightarrow> val \<Rightarrow> gomap" where
  "mapAssign m k v = AList.update k v m"

definition mapIndex :: "gomap \<Rightarrow> string \<Rightarrow> val" where
  "mapIndex m k = (case map_of m k of None \<Rightarrow> VNil | Some v \<Rightarrow> v)"

section \<open>CoreAttribute.validate and CoreAttribute.validateSingular\<close>

lemma size_subAttribute:
  "(x :: CoreAttribute) \<in> set xs \<Longrightarrow> size x \<le> size_list size xs"
  by (induction xs) auto

definition invalidValue :: "string \<Rightarrow> ScimError" where
  "invalidValue d = ScimError ScimErrorInvalidValue d"

text \<open>
  The scan both \<open>Schema.validate\<close> and the complex case run over the input mapping for one
  attribute name: the pair \<open>(found, hit)\<close>, or \<open>Inl ()\<close> at a second matching key.
\<close>

definition scanHit :: "string \<Rightarrow> gomap \<Rightarrow> unit + (bool \<times> val)" where
  "scanHit nm m =
     forEach (\<lambda>(k, v) (found, hit).
        if EqualFold nm k then (if found then Inl () else Inr (True, v))
        else Inr (found, hit)) m (False, VNil)"

function validate :: "externals \<Rightarrow> CoreAttribute \<Rightarrow> val \<Rightarrow> ScimError + val"
  and validateSingular :: "externals \<Rightarrow> CoreAttribute \<Rightarrow> val \<Rightarrow> ScimError + val"
where
  "validate X (CoreAttribute cv ce de mv mu nm rt rq re subs ty un) attribute =
     (if attribute = VNil then
        (if \<not> rq then Inr VNil
         else Inl (invalidValue ('' Attribute name: '' @ nm)))
      else if mu = attributeMutabilityReadOnly then Inr VNil
      else if \<not> mv then
        validateSingular X (CoreAttribute cv ce de mv mu nm rt rq re subs ty un) attribute
      else
        (case attribute of
           VMap arr \<Rightarrow>
             if rq \<and> length arr = 0 then
               Inl (invalidValue ('' Multivalued attribute was empty. Attribute name: '' @ nm))
             else
               (case forEach (\<lambda>(k, v) validMap.
                        forEach (\<lambda>sub validMap.
                           if \<not> EqualFold (name sub) k then Inr validMap
                           else (case validate X sub v of
                                   Inl scimErr \<Rightarrow> Inl scimErr
                                 | Inr _ \<Rightarrow> Inr (mapAssign validMap (name sub) v)))
                          subs validMap)
                      arr [] of
                  Inl scimErr \<Rightarrow> Inl scimErr
                | Inr validMap \<Rightarrow> Inr (VMap validMap))
         | VList arr \<Rightarrow>
             if rq \<and> length arr = 0 then
               Inl (invalidValue ('' Multivalued attribute was empty. Attribute name: '' @ nm))
             else
               (case forEach (\<lambda>ele attributes.
                        case validateSingular X
                               (CoreAttribute cv ce de mv mu nm rt rq re subs ty un) ele of
                          Inl scimErr \<Rightarrow> Inl scimErr
                        | Inr attr \<Rightarrow> Inr (attributes @ [attr]))
                      arr [] of
                  Inl scimErr \<Rightarrow> Inl scimErr
                | Inr attributes \<Rightarrow> Inr (VList attributes))
         | _ \<Rightarrow>
             Inl (invalidValue
                    ('' Multivalued attribute was not an array. Attribute name: '' @ nm))))"
| "validateSingular X (CoreAttribute cv ce de mv mu nm rt rq re subs ty un) attribute =
     (case ty of
        attributeDataTypeBinary \<Rightarrow>
          (case attribute of
             VString bin \<Rightarrow>
               if \<not> matchBase64 bin then
                 Inl (invalidValue
                        ('' Attribute contains illegal characters for type: binary. Attribute name: '' @ nm))
               else Inr (VString bin)
           | _ \<Rightarrow>
               Inl (invalidValue
                      ('' Binary attribute not the right type. Attribute name: '' @ nm)))
      | attributeDataTypeBoolean \<Rightarrow>
          (case attribute of
             VBool b \<Rightarrow> Inr (VBool b)
           | VString s \<Rightarrow>
               (case map_of [(''True'', True), (''False'', False),
                             (''true'', True), (''false'', False)] s of
                  Some v \<Rightarrow> Inr (VBool v)
                | None \<Rightarrow>
                    Inl (invalidValue
                           ('' Boolean attribute not the right type. Attribute name: '' @ nm)))
           | _ \<Rightarrow>
               Inl (invalidValue
                      ('' Boolean attribute not the right type. Attribute name: '' @ nm)))
      | attributeDataTypeComplex \<Rightarrow>
          (case attribute of
             VMap complex \<Rightarrow>
               (case forEach (\<lambda>sub attributes.
                        case scanHit (name sub) complex of
                          Inl _ \<Rightarrow>
                            Inl (invalidValue
                                   ('' Duplicate attribute found inside of the complex attribute: ''
                                    @ nm @ ''. Duplicate attribute name: '' @ name sub))
                        | Inr (found, hit) \<Rightarrow>
                            (case validate X sub hit of
                               Inl scimErr \<Rightarrow> Inl scimErr
                             | Inr attr \<Rightarrow> Inr (mapAssign attributes (name sub) attr)))
                      subs [] of
                  Inl scimErr \<Rightarrow> Inl scimErr
                | Inr attributes \<Rightarrow> Inr (VMap attributes))
           | _ \<Rightarrow>
               if EqualFold (ToLower nm) ''manager'' then
                 (case attribute of
                    VString manager \<Rightarrow> Inr (VString manager)
                  | _ \<Rightarrow>
                      Inl (invalidValue
                             ('' Complex attribute does not have the right structure. Attribute name: ''
                              @ nm)))
               else
                 Inl (invalidValue
                        ('' Complex attribute does not have the right structure. Attribute name: ''
                         @ nm)))
      | attributeDataTypeDateTime \<Rightarrow>
          (case attribute of
             VString date \<Rightarrow>
               if \<not> datetime_Parse X date then
                 Inl (invalidValue
                        ('' Date time attribute value is not in the right format - please ensure use supply date time in YYYY-MM-DDTHH:mm:ssZ format. Attribute name: ''
                         @ nm))
               else Inr (VString date)
           | _ \<Rightarrow>
               Inl (invalidValue
                      ('' Date time attribute does not have the right type. Attribute name: '' @ nm)))
      | attributeDataTypeDecimal \<Rightarrow>
          (case attribute of
             VNumber n \<Rightarrow>
               (case Number_Float64 X n of
                  None \<Rightarrow>
                    Inl (invalidValue
                           ('' Decimal attribute value failed to parse as a decimal. Attribute name: ''
                            @ nm))
                | Some f \<Rightarrow> Inr (VFloat64 f))
           | VFloat64 n \<Rightarrow> Inr (VFloat64 n)
           | _ \<Rightarrow>
               Inl (invalidValue
                      ('' Decimal attribute value failed submitted with wrong type. Attribute name: ''
                       @ nm)))
      | attributeDataTypeInteger \<Rightarrow>
          (case attribute of
             VNumber n \<Rightarrow>
               (case Number_Int64 X n of
                  None \<Rightarrow>
                    Inl (invalidValue
                           ('' Integer attribute value failed to parse as an integer. Attribute name: ''
                            @ nm))
                | Some i \<Rightarrow> Inr (VInt i))
           | VInt n \<Rightarrow> Inr (VInt n)
           | _ \<Rightarrow>
               Inl (invalidValue
                      ('' Integer attribute value failed to parse as an integer. Attribute name: ''
                       @ nm)))
      | attributeDataTypeReference \<Rightarrow>
          (case attribute of
             VString s \<Rightarrow> Inr (VString s)
           | _ \<Rightarrow>
               Inl (invalidValue
                      ('' Reference attribute value is not of the right type. Attribute name: ''
                       @ nm)))
      | attributeDataTypeString \<Rightarrow>
          (case attribute of
             VString s \<Rightarrow> Inr (VString s)
           | _ \<Rightarrow>
               Inl (invalidValue
                      ('' String attribute value is not of the right type. Attribute name: '' @ nm)))
      | attributeDataTypeOther \<Rightarrow>
          Inl (invalidValue ('' Unrecognized attribute type. Attribute name: '' @ nm)))"
  by pat_completeness auto
termination
  by (relation "measure (\<lambda>x. case x of
                   Inl (X, a, v) \<Rightarrow> 2 * size a + 1
                 | Inr (X, a, v) \<Rightarrow> 2 * size a)")
     (auto dest!: size_subAttribute)

section \<open>Schema\<close>

record Schema =
  Attributes :: "CoreAttribute list"
  Description :: "string option"
  ID :: string
  Name :: "string option"

text \<open>
  The body of the loop of \<open>Schema.validate\<close> over \<open>s.Attributes\<close>: the scan of the input
  mapping, the immutability check, the attribute's own validation and the assignment
  \<open>attributes[attribute.name] = attr\<close>.
\<close>

definition validateAttribute ::
  "externals \<Rightarrow> gomap \<Rightarrow> bool \<Rightarrow> CoreAttribute \<Rightarrow> gomap \<Rightarrow> ScimError + gomap" where
  "validateAttribute X core checkMutability attribute attributes =
     (case scanHit (name attribute) core of
        Inl _ \<Rightarrow>
          Inl (ScimError ScimErrorDuplicateAttributeFound
                 ('' Attribute name: '' @ name attribute))
      | Inr (found, hit) \<Rightarrow>
          if found \<and> checkMutability \<and> mutability attribute = attributeMutabilityImmutable then
            Inl (ScimError ScimErrorMutability ('' Attribute name: '' @ name attribute))
          else
            (case validate X attribute hit of
               Inl scimErr \<Rightarrow> Inl scimErr
             | Inr attr \<Rightarrow> Inr (mapAssign attributes (name attribute) attr)))"

definition Schema_validate ::
  "externals \<Rightarrow> Schema \<Rightarrow> val \<Rightarrow> bool \<Rightarrow> ScimError + gomap" where
  "Schema_validate X s resource checkMutability =
     (case resource of
        VMap core \<Rightarrow> forEach (validateAttribute X core checkMutability) (Attributes s) []
      | _ \<Rightarrow> Inl (ScimError ScimErrorInvalidSyntax []))"

definition Validate :: "externals \<Rightarrow> Schema \<Rightarrow> val \<Rightarrow> ScimError + gomap" where
  "Validate X s resource = Schema_validate X s resource False"

definition ValidateMutability :: "externals \<Rightarrow> Schema \<Rightarrow> val \<Rightarrow> ScimError + gomap" where
  "ValidateMutability X s resource = Schema_validate X s resource True"

definition isImmutable :: "string \<Rightarrow> CoreAttribute \<Rightarrow> bool" where
  "isImmutable op attr =
     (mutability attr = attributeMutabilityImmutable \<and> (op = ''replace'' \<or> op = ''remove''))"

definition isReadOnly :: "CoreAttribute \<Rightarrow> bool" where
  "isReadOnly attr = (mutability attr = attributeMutabilityReadOnly)"

definition cannotBePatched :: "string \<Rightarrow> CoreAttribute \<Rightarrow> bool" where
  "cannotBePatched op attr = (isImmutable op attr \<or> isReadOnly attr)"

text \<open>
  The inner loop of \<open>ValidatePatchOperation\<close>: the first attribute of the schema whose name,
  or for an extension whose name after \<open>s.ID + ":"\<close>, folds to the key; \<open>None\<close> leaves the
  pointer \<open>attr\<close> nil.
\<close>

definition resolveAttribute :: "Schema \<Rightarrow> bool \<Rightarrow> string \<Rightarrow> CoreAttribute option" where
  "resolveAttribute s isExtension k =
     find (\<lambda>attribute.
             EqualFold (name attribute) k
             \<or> (isExtension \<and> EqualFold (ID s @ '':'' @ name attribute) k))
          (Attributes s)"

text \<open>
  The body of the loop over \<open>operationValue\<close>. With \<open>attr\<close> nil the condition
  \<open>attr == nil || cannotBePatched(operation, *attr)\<close> holds, and the error literal then
  reads \<open>attr.name\<close> through the nil pointer: the call panics before any error is returned.
\<close>

definition patchAttribute ::
  "externals \<Rightarrow> Schema \<Rightarrow> string \<Rightarrow> bool \<Rightarrow> string \<times> val \<Rightarrow> gomap \<Rightarrow> failure + gomap" where
  "patchAttribute X s operation isExtension kv value =
     (case kv of (k, v) \<Rightarrow>
        (case resolveAttribute s isExtension k of
           None \<Rightarrow> Inl NilPointerDereference
         | Some attr \<Rightarrow>
             if cannotBePatched operation attr then
               Inl (Failed (invalidValue
                      ('' Attribute '' @ name attr
                       @ '' does not exist in the schema, or is immutable in the schema, and therefore cannot be patched.'')))
             else
               (case validate X attr v of
                  Inl scimErr \<Rightarrow> Inl (Failed scimErr)
                | Inr newValue \<Rightarrow> Inr (mapAssign value k newValue))))"

definition ValidatePatchOperation ::
  "externals \<Rightarrow> Schema \<Rightarrow> string \<Rightarrow> gomap \<Rightarrow> bool \<Rightarrow> failure + gomap" where
  "ValidatePatchOperation X s operation operationValue isExtension =
     forEach (patchAttribute X s operation isExtension) operationValue []"

definition ValidatePatchOperationValue ::
  "externals \<Rightarrow> Schema \<Rightarrow> string \<Rightarrow> gomap \<Rightarrow> failure + gomap" where
  "ValidatePatchOperationValue X s operation operationValue =
     ValidatePatchOperation X s operation operationValue False"

section \<open>ResourceType\<close>

text \<open>
  A resolved path as package \<open>filter\<close> hands it over: \<open>filter.AttributePath\<close> and
  \<open>filter.Path\<close>, a nil \<open>*string\<close> being \<open>None\<close>. The value filter of a path is never read
  by the code below and is left out. \<open>URI\<close> and \<open>SubAttributeName\<close> read a pointer field
  and give the empty string for nil.
\<close>

record AttributePath =
  URIPrefix :: "string option"
  AttributeName :: string
  SubAttribute :: "string option"

record Path =
  AttributePath :: AttributePath
  SubAttribute :: "string option"

definition URI :: "AttributePath \<Rightarrow> string" where
  "URI p = (case URIPrefix p of None \<Rightarrow> [] | Some u \<Rightarrow> u)"

definition AttributePath_SubAttributeName :: "AttributePath \<Rightarrow> string" where
  "AttributePath_SubAttributeName p =
     (case AttributePath.SubAttribute p of None \<Rightarrow> [] | Some n \<Rightarrow> n)"

definition Path_SubAttributeName :: "Path \<Rightarrow> string" where
  "Path_SubAttributeName p = (case Path.SubAttribute p of None \<Rightarrow> [] | Some n \<Rightarrow> n)"

text \<open>One element of \<open>req.Operations\<close> as the JSON decoder fills it.\<close>

record reqOperation =
  Op :: string
  Path :: string
  Value :: val

record PatchOperation =
  Op :: string
  Path :: "Path option"
  Value :: val

record PatchRequest =
  Schemas :: "string list"
  Operations :: "PatchOperation list"

text \<open>
  \<open>SchemaExtension\<close> and \<open>ResourceType\<close>; \<open>'r\<close> is the request (\<open>*http.Request\<close>) a dynamic
  schema loader is called with. Of \<open>ResourceType\<close> the base schema and the extensions are
  kept; its descriptive fields and handler callbacks play no part in validation.
\<close>

record 'r SchemaExtension =
  Schema :: Schema
  Required :: bool
  LoadDynamically :: bool
  SchemaLoader :: "'r \<Rightarrow> Schema"

record 'r ResourceType =
  Schema :: Schema
  SchemaExtensions :: "'r SchemaExtension list"

text \<open>
  Modelled from the spec: the attribute \<open>schemaWithCommon\<close> appends is built by
  \<open>schema.SimpleCoreAttribute(schema.SimpleStringParams(...))\<close> under the name
  \<open>schema.CommonAttributeExternalID\<close>, none of which is among the sources; the spec gives
  it as "externalId", type string, caseExact, mutability readWrite, uniqueness none.
\<close>

definition externalID :: CoreAttribute where
  "externalID =
     CoreAttribute [] True None False attributeMutabilityReadWrite ''externalId'' [] False
       attributeReturnedDefault [] attributeDataTypeString attributeUniquenessNone"

definition schemaWithCommon :: "'r ResourceType \<Rightarrow> Schema" where
  "schemaWithCommon t =
     (ResourceType.Schema t)
       \<lparr>Attributes := Attributes (ResourceType.Schema t) @ [externalID]\<rparr>"

definition getSchemaExtensions :: "'r ResourceType \<Rightarrow> 'r \<Rightarrow> Schema list" where
  "getSchemaExtensions t r =
     map (\<lambda>e. if LoadDynamically e then SchemaLoader e r else SchemaExtension.Schema e)
       (SchemaExtensions t)"

text \<open>
  \<open>validateOperationValue\<close>. \<open>op.Path\<close> is a pointer the function reads at once, so a nil
  path panics. \<open>subAttributeNameOf\<close> is its local variable \<open>subAttributeName\<close>: the
  sub-attribute of the attribute path, or else the one after the value filter. The loop over the extensions returns at the first one whose schema ID folds
  to the URI of the path and falls through to the base schema when there is none.
\<close>

definition subAttributeNameOf :: "Path \<Rightarrow> string" where
  "subAttributeNameOf path =
     (if AttributePath_SubAttributeName (AttributePath path) = []
      then Path_SubAttributeName path
      else AttributePath_SubAttributeName (AttributePath path))"

definition operationMapValue :: "string \<Rightarrow> string \<Rightarrow> val \<Rightarrow> gomap" where
  "operationMapValue attributeName subAttributeName v =
     (case v of
        VMap m \<Rightarrow> m
      | _ \<Rightarrow>
          if subAttributeName = [] then [(attributeName, v)]
          else [(attributeName, VMap [(subAttributeName, v)])])"

definition validateOperationValue ::
  "externals \<Rightarrow> 'r ResourceType \<Rightarrow> PatchOperation \<Rightarrow> 'r \<Rightarrow> failure + gomap" where
  "validateOperationValue X t op r =
     (case PatchOperation.Path op of
        None \<Rightarrow> Inl NilPointerDereference
      | Some path \<Rightarrow>
          let attributeName = AttributeName (AttributePath path);
              subAttributeName = subAttributeNameOf path;
              mapValue = operationMapValue attributeName subAttributeName (Value op);
              id = URI (AttributePath path)
          in
            (case (if attributeName \<noteq> [] \<and> id \<noteq> []
                   then find (\<lambda>ext. EqualFold id (ID (SchemaExtension.Schema ext)))
                          (SchemaExtensions t)
                   else None) of
               Some ext \<Rightarrow>
                 if LoadDynamically ext then
                   ValidatePatchOperation X (SchemaLoader ext r) (Op op) mapValue True
                 else
                   ValidatePatchOperation X (SchemaExtension.Schema ext) (Op op) mapValue True
             | None \<Rightarrow>
                 ValidatePatchOperationValue X (schemaWithCommon t) (Op op) mapValue))"

section \<open>ResourceType.validatePatch\<close>

text \<open>
  The collaborators of \<open>validatePatch\<close> that are not among the sources:
  \<open>filter.NewPathValidator\<close>, which gives an error text or a validator, the validator's
  \<open>Validate\<close> (\<open>None\<close> for a nil error) and \<open>Path\<close>, and the method \<open>Error\<close> of
  \<open>*errors.ScimError\<close>.
\<close>

record PathValidator =
  PathValidator_Validate :: "string option"
  PathValidator_Path :: Path

record collaborators =
  NewPathValidator :: "string \<Rightarrow> Schema \<Rightarrow> Schema list \<Rightarrow> string + PathValidator"
  ScimError_Error :: "ScimError \<Rightarrow> string"

text \<open>
  Modelled from the spec: the constants \<open>PatchOperationAdd\<close>, \<open>PatchOperationReplace\<close> and
  \<open>PatchOperationRemove\<close> are declared outside the sources; the spec names the verbs add,
  replace and remove.
\<close>

definition PatchOperationAdd :: string where "PatchOperationAdd = ''add''"
definition PatchOperationReplace :: string where "PatchOperationReplace = ''replace''"
definition PatchOperationRemove :: string where "PatchOperationRemove = ''remove''"

text \<open>\<open>fmt.Sprint\<close> of a non-negative \<open>int\<close>: its decimal digits.\<close>

definition digit :: "nat \<Rightarrow> char" where
  "digit d = ''0123456789'' ! d"

function Sprint :: "nat \<Rightarrow> string" where
  "Sprint n = (if n < 10 then [digit n] else Sprint (n div 10) @ [digit (n mod 10)])"
  by pat_completeness auto
termination
  by (relation "measure id") auto

declare Sprint.simps [simp del]

definition operationNumber :: "nat \<Rightarrow> string" where
  "operationNumber index = '' Operation number: '' @ Sprint (index + 1)"

text \<open>
  The assignment to \<open>op.Value\<close> after a successful \<open>validateOperationValue\<close>: the entry of
  \<open>val\<close> under the attribute name, or, for a path with a sub-attribute, the entry under the
  sub-attribute name of the mapping found there; where no mapping is found the value stays.
\<close>

definition coercedValue :: "Path \<Rightarrow> gomap \<Rightarrow> val \<Rightarrow> val" where
  "coercedValue p val v =
     (if AttributePath_SubAttributeName (AttributePath p) = [] then
        (if Path.SubAttribute p = None \<or> Path.SubAttribute p = Some [] then
           mapIndex val (AttributeName (AttributePath p))
         else
           (case mapIndex val (AttributeName (AttributePath p)) of
              VMap subAttrMap \<Rightarrow> mapIndex subAttrMap (Path_SubAttributeName p)
            | _ \<Rightarrow> v))
      else
        (case mapIndex val (AttributeName (AttributePath p)) of
           VMap subAttrMap \<Rightarrow>
             mapIndex subAttrMap (AttributePath_SubAttributeName (AttributePath p))
         | _ \<Rightarrow> v))"

text \<open>
  The spec's account of that assignment, in its words: the value "extracted back out of the
  validated mapping (by the same attribute/sub-attribute keys used to build it)". The keys
  are the attribute name and \<open>subAttributeNameOf\<close> of the path; where they lead to nothing
  there is nothing to extract, which is nil.
\<close>

definition extractByPath :: "Path \<Rightarrow> gomap \<Rightarrow> val" where
  "extractByPath p val =
     (if subAttributeNameOf p = [] then mapIndex val (AttributeName (AttributePath p))
      else (case mapIndex val (AttributeName (AttributePath p)) of
              VMap sm \<Rightarrow> mapIndex sm (subAttributeNameOf p)
            | _ \<Rightarrow> VNil))"

text \<open>The part of the loop body after the \<open>switch\<close> on the verb.\<close>

definition finishOperation ::
  "externals \<Rightarrow> collaborators \<Rightarrow> 'r ResourceType \<Rightarrow> 'r \<Rightarrow> nat \<Rightarrow> string \<Rightarrow> val
   \<Rightarrow> string + PathValidator \<Rightarrow> failure + PatchOperation" where
  "finishOperation X C t r index verb v pv =
     (case pv of
        Inl err \<Rightarrow> Inr \<lparr>Op = ToLower verb, Path = None, Value = v\<rparr>
      | Inr validator \<Rightarrow>
          (case PathValidator_Validate validator of
             Some err \<Rightarrow>
               Inl (Failed (ScimError ScimErrorInvalidPath
                      (operationNumber index @ '', has failed validation. '' @ err)))
           | None \<Rightarrow>
               let op = \<lparr>Op = ToLower verb, Path = Some (PathValidator_Path validator),
                         Value = v\<rparr>
               in (case validateOperationValue X t op r of
                     Inl NilPointerDereference \<Rightarrow> Inl NilPointerDereference
                   | Inl (Failed err) \<Rightarrow>
                       Inl (Failed (ScimError ScimErrorInvalidValue
                              (operationNumber index @ '', has failed validation. ''
                               @ ScimError_Error C err)))
                   | Inr val \<Rightarrow>
                       Inr (op\<lparr>Value := coercedValue (PathValidator_Path validator) val v\<rparr>))))"

text \<open>The loop body: one operation of the request at its 0-based \<open>index\<close>.\<close>

definition validateOperation ::
  "externals \<Rightarrow> collaborators \<Rightarrow> 'r ResourceType \<Rightarrow> 'r \<Rightarrow> nat \<Rightarrow> reqOperation
   \<Rightarrow> failure + PatchOperation" where
  "validateOperation X C t r index v =
     (let pv = NewPathValidator C (reqOperation.Path v) (schemaWithCommon t)
                 (getSchemaExtensions t r);
          verb = ToLower (reqOperation.Op v)
      in
        if verb = PatchOperationAdd \<or> verb = PatchOperationReplace then
          (case pv of
             Inl err \<Rightarrow>
               if reqOperation.Path v \<noteq> [] then
                 Inl (Failed (ScimError ScimErrorInvalidPath
                        (operationNumber index @ '', has failed validation. '' @ err)))
               else finishOperation X C t r index verb (reqOperation.Value v) pv
           | Inr _ \<Rightarrow> finishOperation X C t r index verb (reqOperation.Value v) pv)
        else if verb = PatchOperationRemove then
          (case pv of
             Inl err \<Rightarrow>
               Inl (Failed (ScimError ScimErrorInvalidPath
                      (operationNumber index @ '', has failed validation. '' @ err)))
           | Inr _ \<Rightarrow> finishOperation X C t r index verb (reqOperation.Value v) pv)
        else
          Inl (Failed (ScimError ScimErrorInvalidFilter
                 (operationNumber index @ '', has an unrecognized operation type.''))))"

fun validateOperations ::
  "externals \<Rightarrow> collaborators \<Rightarrow> 'r ResourceType \<Rightarrow> 'r \<Rightarrow> nat \<Rightarrow> reqOperation list
   \<Rightarrow> PatchOperation list \<Rightarrow> failure + PatchOperation list" where
  "validateOperations X C t r index [] ops = Inr ops"
| "validateOperations X C t r index (v # vs) ops =
     (case validateOperation X C t r index v of
        Inl e \<Rightarrow> Inl e
      | Inr op \<Rightarrow> validateOperations X C t r (Suc index) vs (ops @ [op]))"

text \<open>
  \<open>validatePatch\<close> from the decoded request on: \<open>schemas\<close> and \<open>operations\<close> are the fields
  \<open>Schemas\<close> and \<open>Operations\<close> the decoder filled (reading and decoding the body are the
  standard library's).
\<close>

definition validatePatch ::
  "externals \<Rightarrow> collaborators \<Rightarrow> 'r ResourceType \<Rightarrow> 'r \<Rightarrow> string list \<Rightarrow> reqOperation list
   \<Rightarrow> failure + PatchRequest" where
  "validatePatch X C t r schemas operations =
     (if length operations < 1 then
        Inl (Failed (invalidValue '' Zero operations found in request body.''))
      else
        (case validateOperations X C t r 0 operations [] of
           Inl e \<Rightarrow> Inl e
         | Inr ops \<Rightarrow> Inr \<lparr>Schemas = schemas, Operations = ops\<rparr>))"

section \<open>The loops of the mapping case, named\<close>

text \<open>
  The two nested loops of the mapping case of \<open>validate\<close>, named: \<open>legacyEntry\<close> is the
  body of the loop over the entries of the mapping, \<open>legacySub\<close> the body of the loop over
  the sub-attributes for one entry.
\<close>

definition legacySub ::
  "externals \<Rightarrow> string \<Rightarrow> val \<Rightarrow> CoreAttribute \<Rightarrow> gomap \<Rightarrow> ScimError + gomap" where
  "legacySub X k v =
     (\<lambda>sub validMap.
        if \<not> EqualFold (name sub) k then Inr validMap
        else (case validate X sub v of
                Inl scimErr \<Rightarrow> Inl scimErr
              | Inr _ \<Rightarrow> Inr (mapAssign validMap (name sub) v)))"

definition legacyEntry ::
  "externals \<Rightarrow> CoreAttribute list \<Rightarrow> string \<times> val \<Rightarrow> gomap \<Rightarrow> ScimError + gomap" where
  "legacyEntry X subs = (\<lambda>(k, v) validMap. forEach (legacySub X k v) subs validMap)"

text \<open>
  \<open>fromInput subs arr (n, w)\<close>: the entry \<open>(n, w)\<close> is an input value \<open>w\<close> of the mapping
  \<open>arr\<close>, filed under the name \<open>n\<close> of a sub-attribute its input key folds to.
\<close>

definition fromInput :: "CoreAttribute list \<Rightarrow> gomap \<Rightarrow> string \<times> val \<Rightarrow> bool" where
  "fromInput subs arr nw =
     (\<exists>sub\<in>set subs. \<exists>kv\<in>set arr.
        fst nw = name sub \<and> EqualFold (name sub) (fst kv) \<and> snd kv = snd nw)"

section \<open>Example data\<close>

text \<open>
  Concrete collaborators and attributes on which the theorems below are instantiated:
  \<open>attribute n ty mv mu rq subs\<close> is the attribute of name \<open>n\<close>, type \<open>ty\<close>, with
  \<open>multiValued = mv\<close>, \<open>mutability = mu\<close>, \<open>required = rq\<close> and sub-attributes \<open>subs\<close>.
\<close>

definition exampleExternals :: externals where
  "exampleExternals =
     \<lparr>datetime_Parse = (\<lambda>_. False), Number_Float64 = (\<lambda>_. None),
      Number_Int64 = (\<lambda>_. None)\<rparr>"

definition attribute ::
  "string \<Rightarrow> attributeType \<Rightarrow> bool \<Rightarrow> attributeMutability \<Rightarrow> bool \<Rightarrow> CoreAttribute list
   \<Rightarrow> CoreAttribute" where
  "attribute n ty mv mu rq subs =
     CoreAttribute [] False None mv mu n [] rq attributeReturnedDefault subs ty
       attributeUniquenessNone"

text \<open>
  A schema with a readOnly "id", an optional "nickName" and an immutable "employeeNumber".
\<close>

definition exampleSchema :: Schema where
  "exampleSchema =
     \<lparr>Attributes =
        [attribute ''id'' attributeDataTypeString False attributeMutabilityReadOnly False [],
         attribute ''nickName'' attributeDataTypeString False attributeMutabilityReadWrite
           False [],
         attribute ''employeeNumber'' attributeDataTypeString False
           attributeMutabilityImmutable False []],
      Description = None, ID = ''urn:example:User'', Name = None\<rparr>"

text \<open>
  A resource type for PATCH requests: a boolean "active" and a complex "name" with the
  sub-attribute "givenName", no extensions. The example path resolver knows the paths
  "active" and "name.givenName" and rejects every other; \<open>Error\<close> gives the text of the
  error.
\<close>

definition examplePatchSchema :: Schema where
  "examplePatchSchema =
     \<lparr>Attributes =
        [attribute ''active'' attributeDataTypeBoolean False attributeMutabilityReadWrite
           False [],
         attribute ''name'' attributeDataTypeComplex False attributeMutabilityReadWrite False
           [attribute ''givenName'' attributeDataTypeString False
              attributeMutabilityReadWrite False []]],
      Description = None, ID = ''urn:example:User'', Name = None\<rparr>"

definition exampleResourceType :: "unit ResourceType" where
  "exampleResourceType = \<lparr>Schema = examplePatchSchema, SchemaExtensions = []\<rparr>"

definition activePath :: Path where
  "activePath =
     \<lparr>AttributePath =
        \<lparr>URIPrefix = None, AttributeName = ''active'', AttributePath.SubAttribute = None\<rparr>,
      SubAttribute = None\<rparr>"

definition givenNamePath :: Path where
  "givenNamePath =
     \<lparr>AttributePath =
        \<lparr>URIPrefix = None, AttributeName = ''name'',
         AttributePath.SubAttribute = Some ''givenName''\<rparr>,
      SubAttribute = None\<rparr>"

definition exampleCollaborators :: collaborators where
  "exampleCollaborators =
     \<lparr>NewPathValidator =
        (\<lambda>path s extensions.
           if path = ''active'' then
             Inr \<lparr>PathValidator_Validate = None, PathValidator_Path = activePath\<rparr>
           else if path = ''name.givenName'' then
             Inr \<lparr>PathValidator_Validate = None, PathValidator_Path = givenNamePath\<rparr>
           else Inl ''invalid path''),
      ScimError_Error = Detail\<rparr>"

section \<open>Case folding\<close>

lemma toLowerByte_idem: "toLowerByte (toLowerByte c) = toLowerByte c"
  by (simp add: toLowerByte_def)

lemma ToLower_idem: "ToLower (ToLower s) = ToLower s"
  by (simp add: ToLower_def toLowerByte_idem)

lemma EqualFold_ToLower: "EqualFold (ToLower s) t = EqualFold s t"
  by (simp add: EqualFold_def ToLower_idem)

section \<open>Singular validation\<close>

text \<open>
  C3, as the code has it. A singular boolean attribute takes a native boolean as it is and
  exactly the four strings of \<open>validBooleanStrings\<close>, "True", "true", "False" and "false",
  which it turns into the boolean they spell; every other string and every other value
  fails with InvalidValue. The table is looked up by the string itself, so other spellings
  such as "TRUE" are rejected.
\<close>

theorem validateSingular_boolean:
  "typ' a = attributeDataTypeBoolean \<Longrightarrow>
   validateSingular X a v =
     (case v of
        VBool b \<Rightarrow> Inr (VBool b)
      | VString s \<Rightarrow>
          if s = ''True'' \<or> s = ''true'' then Inr (VBool True)
          else if s = ''False'' \<or> s = ''false'' then Inr (VBool False)
          else Inl (invalidValue
                      ('' Boolean attribute not the right type. Attribute name: '' @ name a))
      | _ \<Rightarrow>
          Inl (invalidValue
                 ('' Boolean attribute not the right type. Attribute name: '' @ name a)))"
  by (cases a; cases v) auto

theorem validateSingular_boolean_witness:
  "typ' (attribute ''active'' attributeDataTypeBoolean False attributeMutabilityReadWrite
           False []) = attributeDataTypeBoolean
   \<and> validateSingular exampleExternals
       (attribute ''active'' attributeDataTypeBoolean False attributeMutabilityReadWrite
          False [])
       (VString ''True'') = Inr (VBool True)"
  using validateSingular_boolean
    [of "attribute ''active'' attributeDataTypeBoolean False attributeMutabilityReadWrite
           False []" exampleExternals "VString ''True''"]
  by (simp add: attribute_def)

text \<open>
  C3 as the spec states it fails: "TRUE" equals "true" when case is ignored, and the
  attribute rejects it.
\<close>

theorem validateSingular_boolean_upper_case_rejected:
  "EqualFold ''TRUE'' ''true''
   \<and> validateSingular exampleExternals
       (attribute ''active'' attributeDataTypeBoolean False attributeMutabilityReadWrite
          False [])
       (VString ''TRUE'')
     = Inl (ScimError ScimErrorInvalidValue
              '' Boolean attribute not the right type. Attribute name: active'')"
  by (simp add: attribute_def invalidValue_def EqualFold_def ToLower_def toLowerByte_def)

text \<open>
  C7. In singular validation a complex attribute whose name folds to "manager" accepts a
  bare string and returns it unchanged; a complex attribute of any other name fails with
  InvalidValue on every value that is not a mapping.
\<close>

theorem validateSingular_complex_manager:
  "typ' a = attributeDataTypeComplex \<Longrightarrow>
   (EqualFold (name a) ''manager'' \<longrightarrow>
      validateSingular X a (VString s) = Inr (VString s)) \<and>
   (\<not> EqualFold (name a) ''manager'' \<longrightarrow> (\<forall>m. v \<noteq> VMap m) \<longrightarrow>
      validateSingular X a v =
        Inl (invalidValue
               ('' Complex attribute does not have the right structure. Attribute name: ''
                @ name a)))"
  by (cases a; cases v) (simp_all add: EqualFold_ToLower)

theorem validateSingular_complex_manager_witness:
  "validateSingular exampleExternals
     (attribute ''Manager'' attributeDataTypeComplex False attributeMutabilityReadWrite False
        [attribute ''value'' attributeDataTypeString False attributeMutabilityReadWrite
           False []])
     (VString ''274'') = Inr (VString ''274'')
   \<and> validateSingular exampleExternals
       (attribute ''name'' attributeDataTypeComplex False attributeMutabilityReadWrite False
          [attribute ''givenName'' attributeDataTypeString False attributeMutabilityReadWrite
             False []])
       (VString ''274'')
     = Inl (ScimError ScimErrorInvalidValue
              '' Complex attribute does not have the right structure. Attribute name: name'')"
  using
    validateSingular_complex_manager
      [of "attribute ''Manager'' attributeDataTypeComplex False attributeMutabilityReadWrite
             False
             [attribute ''value'' attributeDataTypeString False attributeMutabilityReadWrite
                False []]"
          exampleExternals "''274''" "VString ''274''"]
    validateSingular_complex_manager
      [of "attribute ''name'' attributeDataTypeComplex False attributeMutabilityReadWrite
             False
             [attribute ''givenName'' attributeDataTypeString False
                attributeMutabilityReadWrite False []]"
          exampleExternals "''274''" "VString ''274''"]
  by (simp add: attribute_def invalidValue_def EqualFold_def ToLower_def toLowerByte_def)

section \<open>Attribute validation\<close>



text \<open>
  C9. An explicit null reaches \<open>validate\<close> as nil, the value it is also called with when
  the attribute is absent. For an attribute that is not required the result is no value
  and no error, before any look at the data type; for a required attribute it is the
  InvalidValue error of a required attribute that is not present.
\<close>

theorem validate_null:
  "(\<not> required a \<longrightarrow> validate X a VNil = Inr VNil) \<and>
   (required a \<longrightarrow> validate X a VNil = Inl (invalidValue ('' Attribute name: '' @ name a)))"
  by (cases a) simp

theorem validate_null_witness:
  "validate exampleExternals
     (attribute ''nickName'' attributeDataTypeBoolean True attributeMutabilityReadWrite False
        [])
     VNil = Inr VNil
   \<and> validate exampleExternals
       (attribute ''userName'' attributeDataTypeString False attributeMutabilityReadWrite
          True [])
       VNil = Inl (ScimError ScimErrorInvalidValue '' Attribute name: userName'')"
  using
    validate_null
      [of "attribute ''nickName'' attributeDataTypeBoolean True attributeMutabilityReadWrite
             False []" exampleExternals]
    validate_null
      [of "attribute ''userName'' attributeDataTypeString False attributeMutabilityReadWrite
             True []" exampleExternals]
  by (simp add: attribute_def invalidValue_def)

section \<open>Loops\<close>

lemma forEach_append:
  "forEach f (xs @ ys) s =
     (case forEach f xs s of Inl e \<Rightarrow> Inl e | Inr s' \<Rightarrow> forEach f ys s')"
  by (induction xs arbitrary: s) (auto split: sum.splits)

lemma forEach_invariant:
  assumes "forEach f xs s = Inr s'" and "I s"
    and "\<And>x u u'. x \<in> set xs \<Longrightarrow> I u \<Longrightarrow> f x u = Inr u' \<Longrightarrow> I u'"
  shows "I s'"
  using assms
proof (induction xs arbitrary: s)
  case Nil
  then show ?case by simp
next
  case (Cons x xs)
  from Cons.prems(1) obtain u where u: "f x s = Inr u" and rest: "forEach f xs u = Inr s'"
    by (auto split: sum.splits)
  have "I u" using Cons.prems(2) u Cons.prems(3) [of x s u] by simp
  with rest Cons.prems(3) show ?case by (intro Cons.IH) auto
qed

lemma forEach_Inr_elem:
  "forEach f xs s = Inr s' \<Longrightarrow> x \<in> set xs \<Longrightarrow> \<exists>u u'. f x u = Inr u'"
  by (induction xs arbitrary: s) (auto split: sum.splits)

lemma forEach_fails:
  assumes "x \<in> set xs" and "\<And>u. \<exists>e. f x u = Inl e"
  shows "\<exists>e. forEach f xs s = Inl e"
proof (cases "forEach f xs s")
  case (Inl e)
  then show ?thesis by blast
next
  case (Inr s')
  from forEach_Inr_elem [OF Inr assms(1)] obtain u u' where "f x u = Inr u'" by blast
  with assms(2) [of u] show ?thesis by auto
qed

lemma forEach_succeeds:
  "(\<And>x u. x \<in> set xs \<Longrightarrow> \<exists>u'. f x u = Inr u') \<Longrightarrow> \<exists>s'. forEach f xs s = Inr s'"
proof (induction xs arbitrary: s)
  case Nil
  then show ?case by simp
next
  case (Cons x xs)
  from Cons.prems [of x s] obtain u where "f x s = Inr u" by auto
  moreover from Cons.IH [of u] Cons.prems obtain s' where "forEach f xs u = Inr s'"
    by (metis list.set_intros(2))
  ultimately show ?case by simp
qed

section \<open>Map assignment\<close>

lemma mapAssign_entries:
  "(n, w) \<in> set (mapAssign m k v) \<Longrightarrow> (n, w) = (k, v) \<or> (n, w) \<in> set m"
  unfolding mapAssign_def by (induction m) (auto split: if_splits)

lemma mapAssign_keys: "fst ` set (mapAssign m k v) = insert k (fst ` set m)"
  by (simp add: mapAssign_def dom_update)

lemma mapAssign_distinct: "distinct (map fst m) \<Longrightarrow> distinct (map fst (mapAssign m k v))"
  by (simp add: mapAssign_def distinct_update)

lemma mapAssign_map_of: "map_of (mapAssign m k v) = (map_of m)(k \<mapsto> v)"
  by (simp add: mapAssign_def update_conv')

section \<open>The legacy mapping of a multi-valued attribute\<close>

lemma validate_legacy_unfold:
  "mv \<Longrightarrow> mu \<noteq> attributeMutabilityReadOnly \<Longrightarrow>
   validate X (CoreAttribute cv ce de mv mu nm rt rq re subs ty un) (VMap arr) =
     (if rq \<and> arr = [] then
        Inl (invalidValue ('' Multivalued attribute was empty. Attribute name: '' @ nm))
      else (case forEach (legacyEntry X subs) arr [] of
              Inl scimErr \<Rightarrow> Inl scimErr
            | Inr validMap \<Rightarrow> Inr (VMap validMap)))"
  by (simp add: legacyEntry_def legacySub_def)


lemma legacySub_entries:
  assumes "forEach (legacySub X k v) subs vm = Inr vm'" and "(n, w) \<in> set vm'"
  shows "(n, w) \<in> set vm \<or> (w = v \<and> (\<exists>sub\<in>set subs. n = name sub \<and> EqualFold (name sub) k))"
  using assms
proof (induction subs arbitrary: vm)
  case Nil
  then show ?case by simp
next
  case (Cons sub subs)
  from Cons.prems(1) obtain u where u: "legacySub X k v sub vm = Inr u"
    and rest: "forEach (legacySub X k v) subs u = Inr vm'"
    by (auto split: sum.splits)
  from Cons.IH [OF rest Cons.prems(2)] show ?case
  proof
    assume "(n, w) \<in> set u"
    with u show ?thesis
      by (auto simp: legacySub_def split: if_splits sum.splits dest: mapAssign_entries)
  next
    assume "w = v \<and> (\<exists>sub\<in>set subs. n = name sub \<and> EqualFold (name sub) k)"
    then show ?thesis by auto
  qed
qed

lemma legacySub_keys:
  assumes "forEach (legacySub X k v) subs vm = Inr vm'"
  shows "fst ` set vm \<subseteq> fst ` set vm'
         \<and> (\<forall>sub\<in>set subs. EqualFold (name sub) k \<longrightarrow> name sub \<in> fst ` set vm')"
  using assms
proof (induction subs arbitrary: vm)
  case Nil
  then show ?case by simp
next
  case (Cons sub subs)
  from Cons.prems(1) obtain u where u: "legacySub X k v sub vm = Inr u"
    and rest: "forEach (legacySub X k v) subs u = Inr vm'"
    by (auto split: sum.splits)
  from u have "fst ` set vm \<subseteq> fst ` set u"
    and "EqualFold (name sub) k \<longrightarrow> name sub \<in> fst ` set u"
    by (force simp: legacySub_def mapAssign_keys split: if_splits sum.splits)+
  with Cons.IH [OF rest] show ?case by auto
qed

lemma legacySub_fails:
  assumes "sub \<in> set subs" and "EqualFold (name sub) k" and "validate X sub v = Inl e"
  shows "\<exists>e'. forEach (legacySub X k v) subs vm = Inl e'"
  using assms(1)
  by (rule forEach_fails) (simp add: legacySub_def assms(2,3))

lemma legacySub_succeeds:
  assumes "\<forall>sub\<in>set subs. EqualFold (name sub) k \<longrightarrow> (\<exists>w. validate X sub v = Inr w)"
  shows "\<exists>vm'. forEach (legacySub X k v) subs vm = Inr vm'"
proof (rule forEach_succeeds)
  fix sub u
  assume "sub \<in> set subs"
  with assms show "\<exists>u'. legacySub X k v sub u = Inr u'"
    by (auto simp: legacySub_def)
qed

lemma legacyEntry_entries:
  assumes "forEach (legacyEntry X subs) arr vm = Inr vm'"
    and "\<forall>nw\<in>set vm. fromInput subs arr0 nw" and "set arr \<subseteq> set arr0"
  shows "\<forall>nw\<in>set vm'. fromInput subs arr0 nw"
proof (rule forEach_invariant [OF assms(1), where I = "\<lambda>m. \<forall>nw\<in>set m. fromInput subs arr0 nw"])
  show "\<forall>nw\<in>set vm. fromInput subs arr0 nw" by (rule assms(2))
next
  fix x u u'
  assume x: "x \<in> set arr" and u: "\<forall>nw\<in>set u. fromInput subs arr0 nw"
    and step: "legacyEntry X subs x u = Inr u'"
  obtain k v where kv: "x = (k, v)" by (cases x)
  from step kv have loop: "forEach (legacySub X k v) subs u = Inr u'"
    by (simp add: legacyEntry_def)
  show "\<forall>nw\<in>set u'. fromInput subs arr0 nw"
  proof
    fix nw
    assume "nw \<in> set u'"
    then have "(fst nw, snd nw) \<in> set u'" by simp
    from legacySub_entries [OF loop this]
    show "fromInput subs arr0 nw"
    proof
      assume "(fst nw, snd nw) \<in> set u"
      with u show ?thesis by simp
    next
      assume "snd nw = v \<and> (\<exists>sub\<in>set subs. fst nw = name sub \<and> EqualFold (name sub) k)"
      then obtain sub where sub: "sub \<in> set subs" "fst nw = name sub"
        "EqualFold (name sub) k" "snd nw = v"
        by blast
      have "(k, v) \<in> set arr0" using x kv assms(3) by auto
      with sub show ?thesis unfolding fromInput_def
        by (intro bexI [of _ sub] bexI [of _ "(k, v)"]) simp_all
    qed
  qed
qed

lemma legacyEntry_keys:
  assumes "forEach (legacyEntry X subs) arr vm = Inr vm'"
  shows "fst ` set vm \<subseteq> fst ` set vm'
         \<and> (\<forall>(k, v)\<in>set arr. \<forall>sub\<in>set subs.
               EqualFold (name sub) k \<longrightarrow> name sub \<in> fst ` set vm')"
  using assms
proof (induction arr arbitrary: vm)
  case Nil
  then show ?case by simp
next
  case (Cons x arr)
  obtain k v where kv: "x = (k, v)" by (cases x)
  from Cons.prems kv obtain u where u: "forEach (legacySub X k v) subs vm = Inr u"
    and rest: "forEach (legacyEntry X subs) arr u = Inr vm'"
    by (auto simp: legacyEntry_def split: sum.splits)
  from legacySub_keys [OF u] have 1: "fst ` set vm \<subseteq> fst ` set u"
    and 2: "\<forall>sub\<in>set subs. EqualFold (name sub) k \<longrightarrow> name sub \<in> fst ` set u"
    by simp_all
  from Cons.IH [OF rest] have 3: "fst ` set u \<subseteq> fst ` set vm'"
    and 4: "\<forall>(k, v)\<in>set arr. \<forall>sub\<in>set subs.
               EqualFold (name sub) k \<longrightarrow> name sub \<in> fst ` set vm'"
    by simp_all
  from 1 3 have "fst ` set vm \<subseteq> fst ` set vm'" by (rule subset_trans)
  moreover from 2 3 have "\<forall>sub\<in>set subs. EqualFold (name sub) k \<longrightarrow> name sub \<in> fst ` set vm'"
    by blast
  ultimately show ?case using 4 kv by simp
qed

lemma legacyEntry_fails:
  assumes "(k, v) \<in> set arr" and "sub \<in> set subs" and "EqualFold (name sub) k"
    and "validate X sub v = Inl e"
  shows "\<exists>e'. forEach (legacyEntry X subs) arr vm = Inl e'"
  using assms(1)
proof (rule forEach_fails)
  fix u
  from legacySub_fails [OF assms(2,3,4)]
  show "\<exists>e. legacyEntry X subs (k, v) u = Inl e" by (simp add: legacyEntry_def)
qed

lemma legacyEntry_succeeds:
  assumes "\<forall>(k, v)\<in>set arr. \<forall>sub\<in>set subs.
             EqualFold (name sub) k \<longrightarrow> (\<exists>w. validate X sub v = Inr w)"
  shows "\<exists>vm'. forEach (legacyEntry X subs) arr vm = Inr vm'"
proof (rule forEach_succeeds)
  fix x u
  assume x: "x \<in> set arr"
  obtain k v where kv: "x = (k, v)" by (cases x)
  with x assms have "\<forall>sub\<in>set subs. EqualFold (name sub) k \<longrightarrow> (\<exists>w. validate X sub v = Inr w)"
    by auto
  from legacySub_succeeds [OF this] kv
  show "\<exists>u'. legacyEntry X subs x u = Inr u'" by (simp add: legacyEntry_def)
qed



section \<open>Schema.ValidatePatchOperation\<close>

lemma resolveAttribute_None:
  "(resolveAttribute s isExtension k = None) =
     (\<forall>a\<in>set (Attributes s).
        \<not> EqualFold (name a) k \<and> \<not> (isExtension \<and> EqualFold (ID s @ '':'' @ name a) k))"
  by (auto simp: resolveAttribute_def find_None_iff)



section \<open>Schema.validate\<close>

lemma scanHit_other_key:
  "\<not> EqualFold nm k \<Longrightarrow> scanHit nm (m1 @ (k, v) # m2) = scanHit nm (m1 @ m2)"
  by (auto simp: scanHit_def forEach_append split: sum.splits prod.splits)

lemma scanHit_absent:
  "\<forall>k\<in>fst ` set m. \<not> EqualFold nm k \<Longrightarrow> scanHit nm m = Inr (False, VNil)"
proof -
  have "\<forall>k\<in>fst ` set m. \<not> EqualFold nm k \<Longrightarrow>
        forEach (\<lambda>(k, v) (found, hit).
          if EqualFold nm k then (if found then Inl () else Inr (True, v))
          else Inr (found, hit)) m s = Inr s" for s
    by (induction m arbitrary: s) (auto split: prod.splits)
  then show "\<forall>k\<in>fst ` set m. \<not> EqualFold nm k \<Longrightarrow> scanHit nm m = Inr (False, VNil)"
    by (simp add: scanHit_def)
qed

lemma scanHit_not_found:
  assumes "scanHit nm m = Inr (False, hit)"
  shows "hit = VNil"
proof -
  have "\<not> fst (False, hit) \<longrightarrow> snd (False, hit) = VNil"
    by (rule forEach_invariant [OF assms [unfolded scanHit_def],
          where I = "\<lambda>s. \<not> fst s \<longrightarrow> snd s = VNil"])
       (auto split: if_splits prod.splits)
  then show ?thesis by simp
qed

lemma nil_yields_nil: "validate X a VNil = Inr w \<Longrightarrow> w = VNil"
  by (cases a) (auto split: if_splits)

lemma readOnly_yields_nil:
  "mutability a = attributeMutabilityReadOnly \<Longrightarrow> validate X a v = Inr w \<Longrightarrow> w = VNil"
  by (cases a) (auto split: if_splits)

lemma validateAttribute_Inr:
  assumes "validateAttribute X core chk a acc = Inr acc'"
  shows "\<exists>found hit w. scanHit (name a) core = Inr (found, hit) \<and> validate X a hit = Inr w
           \<and> acc' = mapAssign acc (name a) w
           \<and> \<not> (found \<and> chk \<and> mutability a = attributeMutabilityImmutable)"
  using assms
  by (auto simp: validateAttribute_def split: sum.splits prod.splits if_splits)

lemma validateAttribute_other_key:
  "\<not> EqualFold (name a) k \<Longrightarrow>
   validateAttribute X (m1 @ (k, v) # m2) chk a = validateAttribute X (m1 @ m2) chk a"
  by (rule ext) (simp add: validateAttribute_def scanHit_other_key)

lemma attributes_keys:
  "forEach (validateAttribute X core chk) xs acc = Inr out \<Longrightarrow>
   fst ` set out = fst ` set acc \<union> name ` set xs"
proof (induction xs arbitrary: acc)
  case Nil
  then show ?case by simp
next
  case (Cons x xs)
  from Cons.prems obtain u where u: "validateAttribute X core chk x acc = Inr u"
    and rest: "forEach (validateAttribute X core chk) xs u = Inr out"
    by (auto split: sum.splits)
  from validateAttribute_Inr [OF u] obtain w where "u = mapAssign acc (name x) w"
    by blast
  then have "fst ` set u = insert (name x) (fst ` set acc)"
    by (simp add: mapAssign_keys)
  with Cons.IH [OF rest] show ?case by auto
qed

lemma attributes_distinct:
  assumes "forEach (validateAttribute X core chk) xs acc = Inr out"
    and "distinct (map fst acc)"
  shows "distinct (map fst out)"
proof (rule forEach_invariant [OF assms(1), where I = "\<lambda>m. distinct (map fst m)"])
  show "distinct (map fst acc)" by (rule assms(2))
next
  fix x u u'
  assume "distinct (map fst u)" and "validateAttribute X core chk x u = Inr u'"
  then show "distinct (map fst u')"
    by (auto dest!: validateAttribute_Inr simp: mapAssign_distinct)
qed

lemma attributes_other_name:
  "forEach (validateAttribute X core chk) xs acc = Inr out \<Longrightarrow> n \<notin> name ` set xs \<Longrightarrow>
   map_of out n = map_of acc n"
proof (induction xs arbitrary: acc)
  case Nil
  then show ?case by simp
next
  case (Cons x xs)
  from Cons.prems obtain u where u: "validateAttribute X core chk x acc = Inr u"
    and rest: "forEach (validateAttribute X core chk) xs u = Inr out"
    by (auto split: sum.splits)
  from validateAttribute_Inr [OF u] Cons.prems(2) have "map_of u n = map_of acc n"
    by (auto simp: mapAssign_map_of)
  with Cons.IH [OF rest] Cons.prems(2) show ?case by simp
qed

lemma attributes_values:
  "forEach (validateAttribute X core chk) xs acc = Inr out \<Longrightarrow> a \<in> set xs \<Longrightarrow>
   \<exists>a'\<in>set xs. name a' = name a
      \<and> (\<exists>found hit w. scanHit (name a) core = Inr (found, hit)
            \<and> validate X a' hit = Inr w \<and> map_of out (name a) = Some w)"
proof (induction xs arbitrary: acc a)
  case Nil
  then show ?case by simp
next
  case (Cons x xs)
  from Cons.prems obtain u where u: "validateAttribute X core chk x acc = Inr u"
    and rest: "forEach (validateAttribute X core chk) xs u = Inr out"
    by (auto split: sum.splits)
  show ?case
  proof (cases "name a \<in> name ` set xs")
    case True
    then obtain b where b: "b \<in> set xs" "name b = name a" by auto
    from Cons.IH [OF rest b(1)] b(2) show ?thesis by auto
  next
    case False
    with Cons.prems(2) have ax: "a = x" by auto
    from validateAttribute_Inr [OF u] obtain found hit w where
      w: "scanHit (name x) core = Inr (found, hit)" "validate X x hit = Inr w"
         "u = mapAssign acc (name x) w"
      by blast
    from attributes_other_name [OF rest False] w(3) ax
    have "map_of out (name a) = Some w" by (simp add: mapAssign_map_of)
    with w ax show ?thesis by auto
  qed
qed




section \<open>Validate and ValidateMutability\<close>

lemma forEach_mono:
  assumes "forEach f xs s = Inr s'"
    and "\<And>x u u'. x \<in> set xs \<Longrightarrow> f x u = Inr u' \<Longrightarrow> g x u = Inr u'"
  shows "forEach g xs s = Inr s'"
  using assms
proof (induction xs arbitrary: s)
  case Nil
  then show ?case by simp
next
  case (Cons x xs)
  from Cons.prems(1) obtain u where u: "f x s = Inr u" and rest: "forEach f xs u = Inr s'"
    by (auto split: sum.splits)
  from Cons.prems(2) [OF _ u] have "g x s = Inr u" by simp
  moreover from Cons.IH [OF rest] Cons.prems(2) have "forEach g xs u = Inr s'" by simp
  ultimately show ?case by simp
qed

lemma scan_loop:
  "forEach (\<lambda>(k, v) (found, hit).
      if EqualFold nm k then (if found then Inl () else Inr (True, v))
      else Inr (found, hit)) m (found, hit)
   = (case filter (\<lambda>kv. EqualFold nm (fst kv)) m of
        [] \<Rightarrow> Inr (found, hit)
      | kv # rest \<Rightarrow> if found \<or> rest \<noteq> [] then Inl () else Inr (True, snd kv))"
proof (induction m arbitrary: found hit)
  case Nil
  then show ?case by simp
next
  case (Cons x m)
  obtain k v where x: "x = (k, v)" by (cases x)
  show ?case
    by (cases "filter (\<lambda>kv. EqualFold nm (fst kv)) m") (auto simp: x Cons.IH)
qed

lemma scanHit_filter:
  "scanHit nm m
   = (case filter (\<lambda>kv. EqualFold nm (fst kv)) m of
        [] \<Rightarrow> Inr (False, VNil)
      | [kv] \<Rightarrow> Inr (True, snd kv)
      | _ \<Rightarrow> Inl ())"
  by (simp add: scanHit_def scan_loop split: list.splits)

lemma scanHit_supplied:
  assumes "scanHit nm (m1 @ m2) = Inr (False, h)" and "EqualFold nm k"
  shows "scanHit nm (m1 @ (k, v) # m2) = Inr (True, v)"
proof -
  from assms(1) have "filter (\<lambda>kv. EqualFold nm (fst kv)) (m1 @ m2) = []"
    by (auto simp: scanHit_filter split: list.splits)
  with assms(2) show ?thesis by (simp add: scanHit_filter)
qed

lemma validateAttribute_immutable_absent:
  assumes "validateAttribute X core True a acc = Inr acc'"
    and "mutability a = attributeMutabilityImmutable"
  shows "\<exists>h. scanHit (name a) core = Inr (False, h)"
  using validateAttribute_Inr [OF assms(1)] assms(2) by auto

lemma validateAttribute_immutable_supplied:
  assumes "scanHit (name a) core = Inr (True, v)"
    and "mutability a = attributeMutabilityImmutable"
  shows "validateAttribute X core True a acc
         = Inl (ScimError ScimErrorMutability ('' Attribute name: '' @ name a))"
  using assms by (simp add: validateAttribute_def)

lemma validateAttribute_unchecked:
  assumes "validateAttribute X core chk a acc = Inr acc'"
  shows "\<exists>acc''. validateAttribute X core False a acc2 = Inr acc''"
  using validateAttribute_Inr [OF assms] by (auto simp: validateAttribute_def)



section \<open>ResourceType.validatePatch: the operations in order\<close>

lemma validateOperations_append:
  "validateOperations X C t r index (xs @ ys) ops =
     (case validateOperations X C t r index xs ops of
        Inl e \<Rightarrow> Inl e
      | Inr ops' \<Rightarrow> validateOperations X C t r (index + length xs) ys ops')"
  by (induction xs arbitrary: index ops) (auto split: sum.splits)

lemma validateOperations_each:
  "validateOperations X C t r index vs ops = Inr res \<Longrightarrow>
   \<exists>res'. res = ops @ res' \<and> length res' = length vs
     \<and> (\<forall>i<length vs. validateOperation X C t r (index + i) (vs ! i) = Inr (res' ! i))"
proof (induction vs arbitrary: index ops)
  case Nil
  then show ?case by simp
next
  case (Cons v vs)
  from Cons.prems obtain op where op: "validateOperation X C t r index v = Inr op"
    and rest: "validateOperations X C t r (Suc index) vs (ops @ [op]) = Inr res"
    by (auto split: sum.splits)
  from Cons.IH [OF rest] obtain res' where res': "res = (ops @ [op]) @ res'"
    "length res' = length vs"
    "\<forall>i<length vs. validateOperation X C t r (Suc index + i) (vs ! i) = Inr (res' ! i)"
    by blast
  have "\<forall>i<length (v # vs).
          validateOperation X C t r (index + i) ((v # vs) ! i) = Inr ((op # res') ! i)"
  proof (intro allI impI)
    fix i
    assume "i < length (v # vs)"
    then show "validateOperation X C t r (index + i) ((v # vs) ! i) = Inr ((op # res') ! i)"
      using op res'(3) by (cases i) auto
  qed
  with res'(1,2) show ?case by (intro exI [of _ "op # res'"]) simp
qed

lemma validateOperations_total:
  "(\<forall>i<length vs. \<exists>op. validateOperation X C t r (index + i) (vs ! i) = Inr op) \<Longrightarrow>
   \<exists>res. validateOperations X C t r index vs ops = Inr res"
proof (induction vs arbitrary: index ops)
  case Nil
  then show ?case by simp
next
  case (Cons v vs)
  from Cons.prems have "\<exists>op. validateOperation X C t r (index + 0) ((v # vs) ! 0) = Inr op"
    by blast
  then obtain op where op: "validateOperation X C t r index v = Inr op" by auto
  have "\<forall>i<length vs. \<exists>op. validateOperation X C t r (Suc index + i) (vs ! i) = Inr op"
  proof (intro allI impI)
    fix i
    assume "i < length vs"
    then have "Suc i < length (v # vs)" by simp
    with Cons.prems
    have "\<exists>op. validateOperation X C t r (index + Suc i) ((v # vs) ! Suc i) = Inr op"
      by blast
    then show "\<exists>op. validateOperation X C t r (Suc index + i) (vs ! i) = Inr op" by simp
  qed
  from Cons.IH [OF this, of "ops @ [op]"] op show ?case by simp
qed

lemma validateOperation_unrecognized:
  assumes "ToLower (reqOperation.Op v)
           \<notin> {PatchOperationAdd, PatchOperationReplace, PatchOperationRemove}"
  shows "validateOperation X C t r index v
         = Inl (Failed (ScimError ScimErrorInvalidFilter
                  ('' Operation number: '' @ Sprint (index + 1)
                   @ '', has an unrecognized operation type.'')))"
  using assms by (simp add: validateOperation_def Let_def operationNumber_def)





section \<open>ResourceType.validatePatch: the value of an operation\<close>

lemma validate_map_result:
  assumes "mutability a \<noteq> attributeMutabilityReadOnly" and "validate X a (VMap m) = Inr w"
  shows "\<exists>sm. w = VMap sm"
proof (cases a)
  case (CoreAttribute cv ce de mv mu nm rt rq re subs ty un)
  with assms show ?thesis
    by (cases ty) (auto split: if_splits sum.splits)
qed

lemma ValidatePatchOperation_single:
  assumes "ValidatePatchOperation X s operation [(k, v)] isExtension = Inr val"
  shows "\<exists>attr w. resolveAttribute s isExtension k = Some attr
           \<and> \<not> cannotBePatched operation attr \<and> validate X attr v = Inr w
           \<and> val = [(k, w)]"
  using assms
  by (auto simp: ValidatePatchOperation_def patchAttribute_def mapAssign_def
        split: option.splits if_splits sum.splits)

lemma validateOperationValue_Inr:
  assumes "validateOperationValue X t op r = Inr val" and "PatchOperation.Path op = Some p"
  shows "\<exists>s isExtension.
           ValidatePatchOperation X s (PatchOperation.Op op)
             (operationMapValue (AttributeName (AttributePath p)) (subAttributeNameOf p)
                (PatchOperation.Value op)) isExtension = Inr val"
  using assms
  by (auto simp: validateOperationValue_def Let_def ValidatePatchOperationValue_def
        split: option.splits if_splits)

lemma bare_value_sub_mapping:
  assumes "validateOperationValue X t op r = Inr val" and "PatchOperation.Path op = Some p"
    and "\<forall>m. PatchOperation.Value op \<noteq> VMap m" and "subAttributeNameOf p \<noteq> []"
  shows "\<exists>sm. mapIndex val (AttributeName (AttributePath p)) = VMap sm"
proof -
  from assms(3,4)
  have "operationMapValue (AttributeName (AttributePath p)) (subAttributeNameOf p)
          (PatchOperation.Value op)
        = [(AttributeName (AttributePath p),
            VMap [(subAttributeNameOf p, PatchOperation.Value op)])]"
    by (cases "PatchOperation.Value op") (simp_all add: operationMapValue_def)
  with validateOperationValue_Inr [OF assms(1,2)] obtain s isExtension where
    "ValidatePatchOperation X s (PatchOperation.Op op)
       [(AttributeName (AttributePath p),
         VMap [(subAttributeNameOf p, PatchOperation.Value op)])] isExtension = Inr val"
    by auto
  from ValidatePatchOperation_single [OF this] obtain attr w where
    attr: "\<not> cannotBePatched (PatchOperation.Op op) attr"
    and w: "validate X attr (VMap [(subAttributeNameOf p, PatchOperation.Value op)]) = Inr w"
    and val: "val = [(AttributeName (AttributePath p), w)]"
    by blast
  from attr have "mutability attr \<noteq> attributeMutabilityReadOnly"
    by (simp add: cannotBePatched_def isReadOnly_def)
  from validate_map_result [OF this w] obtain sm where "w = VMap sm" by blast
  with val show ?thesis by (simp add: mapIndex_def)
qed

lemma coercedValue_cases:
  "coercedValue p val v =
     (if subAttributeNameOf p = [] then mapIndex val (AttributeName (AttributePath p))
      else (case mapIndex val (AttributeName (AttributePath p)) of
              VMap sm \<Rightarrow> mapIndex sm (subAttributeNameOf p)
            | _ \<Rightarrow> v))"
  by (auto simp: coercedValue_def subAttributeNameOf_def Path_SubAttributeName_def
        split: option.splits val.splits)

lemma validateOperation_resolved:
  assumes "validateOperation X C t r index v = Inr op"
    and "NewPathValidator C (reqOperation.Path v) (schemaWithCommon t)
           (getSchemaExtensions t r) = Inr validator"
  shows "\<exists>val.
           validateOperationValue X t
             \<lparr>Op = ToLower (ToLower (reqOperation.Op v)),
              Path = Some (PathValidator_Path validator),
              Value = reqOperation.Value v\<rparr> r = Inr val
           \<and> PatchOperation.Value op
             = coercedValue (PathValidator_Path validator) val (reqOperation.Value v)"
  using assms
  by (auto simp: validateOperation_def finishOperation_def Let_def
        split: if_splits option.splits sum.splits failure.splits)




end
